theory Spec2Isabelle
  imports Complex_Main
begin

section \<open>The Matho dual slope generator (src/src/Matho.cpp)\<close>

text \<open>
  A shallow embedding of \<^verbatim>\<open>Matho::process\<close>, \<^verbatim>\<open>Matho::processSlope\<close> and
  \<^verbatim>\<open>Matho::applyCurve\<close>. The C++ \<^verbatim>\<open>float\<close> is read as a real number: rounding,
  infinities and NaN are outside the model, so every statement below is about the
  arithmetic the source writes down, carried out exactly. The reference parameters of
  \<^verbatim>\<open>processSlope\<close> (the a... or b... members of the module) are one record that the
  function takes and returns; the values it reads through its index parameters
  (\<^verbatim>\<open>params[...]\<close>, \<^verbatim>\<open>inputs[...]\<close>) and the numbers \<^verbatim>\<open>random::uniform()\<close> would
  hand out are inputs of the tick.
\<close>

subsection \<open>Library functions the source calls\<close>

text \<open>Rack's \<^verbatim>\<open>clamp(x, a, b)\<close> is \<^verbatim>\<open>fmax(fmin(x, b), a)\<close>.\<close>

definition clamp :: "real \<Rightarrow> real \<Rightarrow> real \<Rightarrow> real" where
  "clamp x a b = max (min x b) a"

text \<open>
  \<^verbatim>\<open>pow(x, y)\<close> of the C library, on the arguments the source gives it: a base that is
  not negative and an exponent that is at least 1. (\<^verbatim>\<open>pow(x, 0)\<close> is 1 for every base.)
\<close>

definition pow :: "real \<Rightarrow> real \<Rightarrow> real" where
  "pow x y = (if y = 0 then 1 else x powr y)"

text \<open>The cast \<^verbatim>\<open>(int)\<close> of a float truncates toward zero.\<close>

definition toInt :: "real \<Rightarrow> int" where
  "toInt x = (if 0 \<le> x then \<lfloor>x\<rfloor> else \<lceil>x\<rceil>)"

subsection \<open>State and inputs\<close>

text \<open>
  The members that \<^verbatim>\<open>process\<close> passes to \<^verbatim>\<open>processSlope\<close> by reference for one
  slope (lines 121-161), and the three lights whose indices it passes. The member
  \<^verbatim>\<open>value\<close> is the field \<open>value'\<close>.
\<close>

record channel =
  phase :: real
  value' :: real
  derivative :: real
  integral :: real
  rising :: bool
  endPulse :: bool
  breakpointPulse :: bool
  prevTrigger :: bool
  chaosMod :: real
  prevSync :: bool
  lastSyncTime :: real
  syncPeriod :: real
  activeLight :: real
  endLight :: real
  breakpointLight :: real

text \<open>
  What one call of \<^verbatim>\<open>processSlope\<close> reads from the module's parameters and inputs:
  for an input its \<^verbatim>\<open>isConnected()\<close> and \<^verbatim>\<open>getVoltage()\<close>, for a parameter its
  \<^verbatim>\<open>getValue()\<close>. \<open>uniformTrig\<close>, \<open>uniformSync\<close> and \<open>uniformCycle\<close> are what
  \<^verbatim>\<open>random::uniform()\<close> returns at lines 438, 468 and 560 if the call is reached.
\<close>

record slopePorts =
  trigConnected :: bool
  trigVoltage :: real
  syncConnected :: bool
  syncVoltage :: real
  riseParam :: real
  fallParam :: real
  curveParam :: real
  breakpointParam :: real
  rateParam :: real
  riseCv :: real
  fallCv :: real
  curveCv :: real
  breakpointCv :: real
  rateCv :: real
  cycleParam :: real
  trigModeParam :: real
  uniformTrig :: real
  uniformSync :: real
  uniformCycle :: real

subsection \<open>applyCurve (lines 594-610)\<close>

definition applyCurve :: "real \<Rightarrow> real \<Rightarrow> real" where
  "applyCurve ph curve =
     (if curve < 0 then pow ph (1 + (- curve) * 2)
      else if curve > 0 then 1 - pow (1 - ph) (1 + curve * 8)
      else ph)"

subsection \<open>processSlope (lines 388-592)\<close>

text \<open>Lines 400-411: the reset when the trigger input has no cable.\<close>

definition disconnectReset :: "slopePorts \<Rightarrow> channel \<Rightarrow> channel" where
  "disconnectReset p s =
     (if \<not> trigConnected p
      then s\<lparr>prevTrigger := False, phase := 0, rising := True, value' := 0,
             derivative := 0, integral := 0, endPulse := False, breakpointPulse := False\<rparr>
      else s)"

text \<open>Lines 414-430: the switch on the trigger mode; no case matches outside 0..3.\<close>

definition triggerAccepted :: "slopePorts \<Rightarrow> channel \<Rightarrow> bool" where
  "triggerAccepted p s =
     (let trigMode = toInt (trigModeParam p) in
      if trigMode = 0 then True
      else if trigMode = 1 then rising s \<and> phase s < 1
      else if trigMode = 2 then \<not> rising s \<and> phase s < 1
      else if trigMode = 3 then \<not> rising s \<and> phase s \<ge> 1
      else False)"

text \<open>Lines 397, 413-441: the rising edge of the trigger and the restart it may cause.\<close>

definition triggerEdge :: "slopePorts \<Rightarrow> channel \<Rightarrow> bool" where
  "triggerEdge p s = (trigVoltage p > 0.5 \<and> \<not> prevTrigger s)"

definition triggerStage :: "slopePorts \<Rightarrow> channel \<Rightarrow> channel" where
  "triggerStage p s =
     (let currentTrigger = (trigVoltage p > 0.5);
          s1 = (if triggerEdge p s \<and> triggerAccepted p s
                then s\<lparr>phase := 0, rising := True, value' := 0,
                       chaosMod := (uniformTrig p - 0.5) * 2\<rparr>
                else s)
      in s1\<lparr>prevTrigger := currentTrigger\<rparr>)"

text \<open>Lines 443-470: the rising edge of the sync input, the period it measures, the restart.\<close>

definition syncEdge :: "slopePorts \<Rightarrow> channel \<Rightarrow> bool" where
  "syncEdge p s = (syncConnected p \<and> syncVoltage p > 0.5 \<and> \<not> prevSync s)"

definition syncStage :: "slopePorts \<Rightarrow> real \<Rightarrow> channel \<Rightarrow> channel" where
  "syncStage p currentTime s =
     (let currentSync = (syncVoltage p > 0.5);
          s0 = (if \<not> syncConnected p then s\<lparr>prevSync := False\<rparr> else s);
          s1 = (if syncEdge p s0
                then (if lastSyncTime s0 > 0
                      then s0\<lparr>syncPeriod := clamp (currentTime - lastSyncTime s0) 0.01 10\<rparr>
                      else s0)
                     \<lparr>lastSyncTime := currentTime, phase := 0, rising := True, value' := 0,
                      chaosMod := (uniformSync p - 0.5) * 2\<rparr>
                else s0)
      in s1\<lparr>prevSync := currentSync\<rparr>)"

text \<open>Lines 396-470 together: everything a tick does before \<^verbatim>\<open>if (freeze) return;\<close>.\<close>

definition edgeStage :: "slopePorts \<Rightarrow> real \<Rightarrow> channel \<Rightarrow> channel" where
  "edgeStage p currentTime s = syncStage p currentTime (triggerStage p (disconnectReset p s))"

text \<open>
  Lines 478-491: the knob mapping, written twice in the source (rise and fall). The
  base of the square is positive on the branch that takes it.
\<close>

definition knobTime :: "real \<Rightarrow> real" where
  "knobTime x = (if x \<le> 0.5 then x * 2 else 1 + pow ((x - 0.5) * 2) 2 * 4)"

text \<open>Lines 511-513.\<close>

definition rateOffset :: "slopePorts \<Rightarrow> real" where
  "rateOffset p = (rateParam p - 0.5) * 2 + rateCv p * 0.2"

text \<open>Lines 500-503: the factor chaos applies to both stage times.\<close>

definition chaosScale :: "real \<Rightarrow> channel \<Rightarrow> real" where
  "chaosScale chaosAmount s =
     (if chaosAmount > 0 then 1 + (chaosMod s * chaosAmount) * 1 else 1)"

text \<open>Lines 478-520: the rise and fall times of this tick.\<close>

definition riseTime :: "slopePorts \<Rightarrow> real \<Rightarrow> channel \<Rightarrow> real" where
  "riseTime p chaosAmount s =
     clamp (knobTime (clamp (riseParam p + riseCv p * 0.1) 0 1) * chaosScale chaosAmount s
            + rateOffset p) 0.001 20"

definition fallTime :: "slopePorts \<Rightarrow> real \<Rightarrow> channel \<Rightarrow> real" where
  "fallTime p chaosAmount s =
     clamp (knobTime (clamp (fallParam p + fallCv p * 0.1) 0 1) * chaosScale chaosAmount s
            + rateOffset p) 0.001 20"

text \<open>Lines 492, 496, 500-508: the curvature of this tick.\<close>

definition curveOf :: "slopePorts \<Rightarrow> real \<Rightarrow> channel \<Rightarrow> real" where
  "curveOf p chaosAmount s =
     (let curve = clamp (curveParam p + curveCv p * 0.1) (- 1) 1
      in if chaosAmount > 0
         then clamp (curve + (chaosMod s * chaosAmount) * 0.5) (- 1) 1
         else curve)"

text \<open>Lines 493-497: the breakpoint fraction, clamped twice.\<close>

definition breakpointOf :: "slopePorts \<Rightarrow> real" where
  "breakpointOf p = clamp (clamp (breakpointParam p + breakpointCv p * 0.1) 0 0.9999) 0 1"

text \<open>Lines 523-532: the time of the active stage, rescaled while sync has a cable.\<close>

definition envelopeTime :: "slopePorts \<Rightarrow> real \<Rightarrow> channel \<Rightarrow> real" where
  "envelopeTime p chaosAmount s =
     (let rt = riseTime p chaosAmount s;
          ft = fallTime p chaosAmount s;
          e = (if rising s then rt else ft)
      in if syncConnected p \<and> syncPeriod s > 0
         then e * (syncPeriod s / (rt + ft))
         else e)"

text \<open>Line 534 and line 538: the advanced phase and the phase over the whole cycle.\<close>

definition advancedPhase :: "slopePorts \<Rightarrow> real \<Rightarrow> real \<Rightarrow> channel \<Rightarrow> real" where
  "advancedPhase p deltaTime chaosAmount s = phase s + deltaTime / envelopeTime p chaosAmount s"

definition cyclePhase :: "slopePorts \<Rightarrow> real \<Rightarrow> real \<Rightarrow> channel \<Rightarrow> real" where
  "cyclePhase p deltaTime chaosAmount s =
     (if rising s then advancedPhase p deltaTime chaosAmount s
      else 1 + advancedPhase p deltaTime chaosAmount s)"

text \<open>Lines 537-544: the breakpoint test of this tick.\<close>

definition breakpointTriggered :: "slopePorts \<Rightarrow> real \<Rightarrow> real \<Rightarrow> channel \<Rightarrow> bool" where
  "breakpointTriggered p deltaTime chaosAmount s =
     (cyclePhase p deltaTime chaosAmount s \<ge> breakpointOf p * 2 \<and> \<not> breakpointPulse s)"

text \<open>Lines 546-569: the end of a stage, on a state whose phase has been advanced.\<close>

definition endOfCycle :: "slopePorts \<Rightarrow> channel \<Rightarrow> channel" where
  "endOfCycle p s =
     (if phase s \<ge> 1
      then (if rising s
            then s\<lparr>rising := False, phase := 0, value' := 1\<rparr>
            else (if cycleParam p > 0.5 \<and> \<not> syncConnected p
                  then s\<lparr>rising := True, phase := 0, value' := 0,
                         chaosMod := (uniformCycle p - 0.5) * 2\<rparr>
                  else s\<lparr>phase := 1, value' := 0\<rparr>)
                 \<lparr>endPulse := True, breakpointPulse := False\<rparr>)
      else s)"

text \<open>Lines 571-577: the value of the slope at a stage and a phase.\<close>

definition rawPhaseOf :: "real \<Rightarrow> real \<Rightarrow> real" where
  "rawPhaseOf ph curve = (if curve \<noteq> 0 then applyCurve ph curve else ph)"

definition slopeValue :: "bool \<Rightarrow> real \<Rightarrow> real \<Rightarrow> real" where
  "slopeValue rise ph curve = (if rise then rawPhaseOf ph curve else 1 - rawPhaseOf ph curve)"

text \<open>
  Lines 475-592: the rest of the tick, run when the slope is not frozen. The
  derivative is the expression of line 580 as the source writes it; the last update is
  line 591, \<^verbatim>\<open>endPulse = false\<close>, after the end light has been set from the flag.
\<close>

definition advance :: "slopePorts \<Rightarrow> real \<Rightarrow> real \<Rightarrow> real \<Rightarrow> channel \<Rightarrow> channel" where
  "advance p deltaTime chaosAmount currentTime s =
     (let curve = curveOf p chaosAmount s;
          triggered = breakpointTriggered p deltaTime chaosAmount s;
          s2 = s\<lparr>phase := advancedPhase p deltaTime chaosAmount s,
                 breakpointPulse := (breakpointPulse s \<or> triggered)\<rparr>;
          s3 = endOfCycle p s2;
          rawPhase = rawPhaseOf (phase s3) curve;
          v = slopeValue (rising s3) (phase s3) curve;
          d = (v - (if rising s3 then rawPhase - deltaTime / currentTime
                    else 1 - (rawPhase - deltaTime / currentTime))) / deltaTime
      in s3\<lparr>value' := v, derivative := d, integral := integral s3 + v * deltaTime,
             activeLight := v, endLight := (if endPulse s3 then 1 else 0),
             breakpointLight := (if triggered then 1 else 0), endPulse := False\<rparr>)"

definition processSlope ::
  "slopePorts \<Rightarrow> real \<Rightarrow> bool \<Rightarrow> real \<Rightarrow> real \<Rightarrow> channel \<Rightarrow> channel" where
  "processSlope p deltaTime freeze chaosAmount currentTime s =
     (let s1 = edgeStage p currentTime s
      in if freeze then s1 else advance p deltaTime chaosAmount currentTime s1)"

text \<open>
  The fall stage completes the cycle on this tick: the tick is not frozen, and after
  the edges the slope is falling and its advanced phase reaches 1 (lines 547-568, the
  \<^verbatim>\<open>else\<close> branch).
\<close>

definition fallCompletes :: "slopePorts \<Rightarrow> real \<Rightarrow> bool \<Rightarrow> real \<Rightarrow> real \<Rightarrow> channel \<Rightarrow> bool" where
  "fallCompletes p deltaTime freeze chaosAmount currentTime s =
     (let s1 = edgeStage p currentTime s
      in \<not> freeze \<and> \<not> rising s1 \<and> advancedPhase p deltaTime chaosAmount s1 \<ge> 1)"

subsection \<open>process (lines 278-385) and the constructor\<close>

text \<open>What one call of \<^verbatim>\<open>process\<close> reads besides the ports of the two slopes.\<close>

record processIn =
  sampleTime :: real
  freezeAButtonParam :: real
  freezeACvConnected :: bool
  freezeACvVoltage :: real
  freezeBButtonParam :: real
  freezeBCvConnected :: bool
  freezeBCvVoltage :: real
  chaosAParam :: real
  chaosACvVoltage :: real
  chaosBParam :: real
  chaosBCvVoltage :: real
  mixParam :: real
  portsA :: slopePorts
  portsB :: slopePorts

text \<open>
  The module: the two slopes, the freeze states, the two function-local statics
  \<^verbatim>\<open>prevFreezeAButton\<close> and \<^verbatim>\<open>prevFreezeBButton\<close>, the accumulated time and the previous
  values that line 383 stores. The statics (lines 283 and 304) belong to the function,
  so every instance of the module shares them; the record is one instance running alone,
  and no property below depends on which freeze flag a tick gets from them.
\<close>

record matho =
  chanA :: channel
  chanB :: channel
  freezeAState :: bool
  freezeBState :: bool
  prevFreezeAButton :: bool
  prevFreezeBButton :: bool
  currentTime :: real
  prevAValue :: real
  prevBValue :: real

text \<open>The voltages and the module-level lights that \<^verbatim>\<open>process\<close> writes.\<close>

record outputs =
  aSlopeOut :: real
  aEndOut :: real
  aPulseOut :: real
  aBreakpointOut :: real
  aDerivativeOut :: real
  aIntegralOut :: real
  bSlopeOut :: real
  bEndOut :: real
  bPulseOut :: real
  bBreakpointOut :: real
  bDerivativeOut :: real
  bIntegralOut :: real
  mixOut :: real
  minOut :: real
  maxOut :: real
  sumOut :: real
  freezeALight :: real
  freezeBLight :: real
  chaosALight :: real
  chaosBLight :: real

text \<open>
  Lines 281-300 (and 302-321 for B): the button toggles the state on its rising edge,
  then a connected freeze CV above or below 2 overrides it. The pair is the freeze state
  and the button's previous level.
\<close>

definition freezeUpdate :: "real \<Rightarrow> bool \<Rightarrow> real \<Rightarrow> bool \<Rightarrow> bool \<Rightarrow> bool \<times> bool" where
  "freezeUpdate button cvConnected cv freezeState prevButton =
     (let pressed = (button > 0.5);
          f1 = (if pressed \<and> \<not> prevButton then \<not> freezeState else freezeState);
          f2 = (if cvConnected
                then (if cv > 2 then True else if cv < 2 then False else f1)
                else f1)
      in (f2, pressed))"

definition chaosAmountOf :: "real \<Rightarrow> real \<Rightarrow> real" where
  "chaosAmountOf param cv = clamp (param + cv * 0.1) 0 1"

definition outputsOf :: "processIn \<Rightarrow> matho \<Rightarrow> outputs" where
  "outputsOf a m =
     \<lparr>aSlopeOut = value' (chanA m) * 10,
      aEndOut = (if endPulse (chanA m) then 10 else 0),
      aPulseOut = (if endPulse (chanA m) then 10 else 0),
      aBreakpointOut = (if breakpointPulse (chanA m) then 10 else 0),
      aDerivativeOut = derivative (chanA m) * 5,
      aIntegralOut = integral (chanA m) * 2,
      bSlopeOut = value' (chanB m) * 10,
      bEndOut = (if endPulse (chanB m) then 10 else 0),
      bPulseOut = (if endPulse (chanB m) then 10 else 0),
      bBreakpointOut = (if breakpointPulse (chanB m) then 10 else 0),
      bDerivativeOut = derivative (chanB m) * 5,
      bIntegralOut = integral (chanB m) * 2,
      mixOut = (value' (chanA m) * (1 - mixParam a) + value' (chanB m) * mixParam a) * 10,
      minOut = min (value' (chanA m)) (value' (chanB m)) * 10,
      maxOut = max (value' (chanA m)) (value' (chanB m)) * 10,
      sumOut = (value' (chanA m) + value' (chanB m)) * 10,
      freezeALight = (if freezeAState m then 1 else 0),
      freezeBLight = (if freezeBState m then 1 else 0),
      chaosALight = chaosAmountOf (chaosAParam a) (chaosACvVoltage a),
      chaosBLight = chaosAmountOf (chaosBParam a) (chaosBCvVoltage a)\<rparr>"

definition process :: "processIn \<Rightarrow> matho \<Rightarrow> matho \<times> outputs" where
  "process a m =
     (let deltaTime = sampleTime a;
          fa = freezeUpdate (freezeAButtonParam a) (freezeACvConnected a) (freezeACvVoltage a)
                 (freezeAState m) (prevFreezeAButton m);
          fb = freezeUpdate (freezeBButtonParam a) (freezeBCvConnected a) (freezeBCvVoltage a)
                 (freezeBState m) (prevFreezeBButton m);
          chaosAAmount = chaosAmountOf (chaosAParam a) (chaosACvVoltage a);
          chaosBAmount = chaosAmountOf (chaosBParam a) (chaosBCvVoltage a);
          t = currentTime m + deltaTime;
          ca = processSlope (portsA a) deltaTime (fst fa) chaosAAmount t (chanA m);
          cb = processSlope (portsB a) deltaTime (fst fb) chaosBAmount t (chanB m);
          m1 = \<lparr>chanA = ca, chanB = cb, freezeAState = fst fa, freezeBState = fst fb,
                prevFreezeAButton = snd fa, prevFreezeBButton = snd fb,
                currentTime = t, prevAValue = value' ca, prevBValue = value' cb\<rparr>
      in (m1, outputsOf a m1))"

text \<open>
  The member initialisers of lines 121-161 and the two draws of the constructor
  (lines 274-275); \<open>uA\<close> and \<open>uB\<close> are what \<^verbatim>\<open>random::uniform()\<close> returns there. The
  lights start dark.
\<close>

definition initChannel :: "real \<Rightarrow> channel" where
  "initChannel u =
     \<lparr>phase = 0, value' = 0, derivative = 0, integral = 0, rising = False,
      endPulse = False, breakpointPulse = False, prevTrigger = False,
      chaosMod = (u - 0.5) * 2, prevSync = False, lastSyncTime = 0, syncPeriod = 1,
      activeLight = 0, endLight = 0, breakpointLight = 0\<rparr>"

definition initMatho :: "real \<Rightarrow> real \<Rightarrow> matho" where
  "initMatho uA uB =
     \<lparr>chanA = initChannel uA, chanB = initChannel uB,
      freezeAState = False, freezeBState = False,
      prevFreezeAButton = False, prevFreezeBButton = False,
      currentTime = 0, prevAValue = 0, prevBValue = 0\<rparr>"

text \<open>A run of the module over a list of ticks, and of one slope over a list of calls.\<close>

fun run :: "processIn list \<Rightarrow> matho \<Rightarrow> matho" where
  "run [] m = m"
| "run (a # as) m = run as (fst (process a m))"

record slopeTick =
  ports :: slopePorts
  argDeltaTime :: real
  argFreeze :: bool
  argChaosAmount :: real
  argCurrentTime :: real

definition slopeStep :: "slopeTick \<Rightarrow> channel \<Rightarrow> channel" where
  "slopeStep t s =
     processSlope (ports t) (argDeltaTime t) (argFreeze t) (argChaosAmount t) (argCurrentTime t) s"

fun runSlope :: "slopeTick list \<Rightarrow> channel \<Rightarrow> channel" where
  "runSlope [] s = s"
| "runSlope (t # ts) s = runSlope ts (slopeStep t s)"

subsection \<open>Predicates and inputs the properties are stated with\<close>

text \<open>The ranges of the stage-local phase and of the value.\<close>

definition chanInv :: "channel \<Rightarrow> bool" where
  "chanInv s = (0 \<le> phase s \<and> phase s \<le> 1 \<and> 0 \<le> value' s \<and> value' s \<le> 1)"

text \<open>No call in the list sees a rising edge of the sync input.\<close>

fun noSyncEdge :: "slopeTick list \<Rightarrow> channel \<Rightarrow> bool" where
  "noSyncEdge [] s = True"
| "noSyncEdge (t # ts) s = (\<not> syncEdge (ports t) s \<and> noSyncEdge ts (slopeStep t s))"

text \<open>
  Every call in the list is frozen, has a cable in the trigger input, and sees neither
  an accepted trigger edge nor a sync edge.
\<close>

fun frozenQuiet :: "slopeTick list \<Rightarrow> channel \<Rightarrow> bool" where
  "frozenQuiet [] s = True"
| "frozenQuiet (t # ts) s =
     (argFreeze t \<and> trigConnected (ports t) \<and>
      \<not> (triggerEdge (ports t) s \<and> triggerAccepted (ports t) s) \<and>
      \<not> syncEdge (ports t) s \<and> frozenQuiet ts (slopeStep t s))"

text \<open>
  The knobs at the defaults the constructor configures (lines 170-217: rise and fall at
  0.5, which is one second each, curvature 0, breakpoint 0.5, rate 0.5, cycle off,
  trigger mode Always), a cable in the trigger input that carries 0 V, no cable
  anywhere else.
\<close>

definition defaultPorts :: slopePorts where
  "defaultPorts =
     \<lparr>trigConnected = True, trigVoltage = 0, syncConnected = False, syncVoltage = 0,
      riseParam = 1/2, fallParam = 1/2, curveParam = 0, breakpointParam = 1/2,
      rateParam = 1/2, riseCv = 0, fallCv = 0, curveCv = 0, breakpointCv = 0, rateCv = 0,
      cycleParam = 0, trigModeParam = 0,
      uniformTrig = 1/2, uniformSync = 1/2, uniformCycle = 1/2\<rparr>"

text \<open>A tick of the module with those ports on both slopes, and one with 10 V on trigger A.\<close>

definition quietTick :: "real \<Rightarrow> processIn" where
  "quietTick dt =
     \<lparr>sampleTime = dt,
      freezeAButtonParam = 0, freezeACvConnected = False, freezeACvVoltage = 0,
      freezeBButtonParam = 0, freezeBCvConnected = False, freezeBCvVoltage = 0,
      chaosAParam = 0, chaosACvVoltage = 0, chaosBParam = 0, chaosBCvVoltage = 0,
      mixParam = 1/2, portsA = defaultPorts, portsB = defaultPorts\<rparr>"

definition trigTick :: "real \<Rightarrow> processIn" where
  "trigTick dt = (quietTick dt)\<lparr>portsA := defaultPorts\<lparr>trigVoltage := 10\<rparr>\<rparr>"

text \<open>
  One full cycle of slope A on a fresh module, in four ticks of half a second: the
  trigger, the end of the rise, the middle of the fall, the end of the fall. The four
  module states, and the states of slope A they hold.
\<close>

definition cycle1 :: matho where
  "cycle1 = fst (process (trigTick (1/2)) (initMatho (1/2) (1/2)))"

definition cycle2 :: matho where
  "cycle2 = fst (process (quietTick (1/2)) cycle1)"

definition cycle3 :: matho where
  "cycle3 = fst (process (quietTick (1/2)) cycle2)"

definition cycle4 :: matho where
  "cycle4 = fst (process (quietTick (1/2)) cycle3)"

definition stateA1 :: channel where
  "stateA1 =
     \<lparr>phase = 1/2, value' = 1/2, derivative = 2, integral = 1/4, rising = True,
      endPulse = False, breakpointPulse = False, prevTrigger = True,
      chaosMod = 0, prevSync = False, lastSyncTime = 0, syncPeriod = 1,
      activeLight = 1/2, endLight = 0, breakpointLight = 0\<rparr>"

definition stateA2 :: channel where
  "stateA2 =
     \<lparr>phase = 0, value' = 1, derivative = - 1, integral = 3/4, rising = False,
      endPulse = False, breakpointPulse = True, prevTrigger = False,
      chaosMod = 0, prevSync = False, lastSyncTime = 0, syncPeriod = 1,
      activeLight = 1, endLight = 0, breakpointLight = 1\<rparr>"

definition stateA3 :: channel where
  "stateA3 =
     \<lparr>phase = 1/2, value' = 1/2, derivative = - (2/3), integral = 1, rising = False,
      endPulse = False, breakpointPulse = True, prevTrigger = False,
      chaosMod = 0, prevSync = False, lastSyncTime = 0, syncPeriod = 1,
      activeLight = 1/2, endLight = 0, breakpointLight = 0\<rparr>"

definition stateA4 :: channel where
  "stateA4 =
     \<lparr>phase = 1, value' = 0, derivative = - (1/2), integral = 1, rising = False,
      endPulse = False, breakpointPulse = False, prevTrigger = False,
      chaosMod = 0, prevSync = False, lastSyncTime = 0, syncPeriod = 1,
      activeLight = 0, endLight = 1, breakpointLight = 0\<rparr>"

text \<open>A call of \<^verbatim>\<open>processSlope\<close> with the default ports: not frozen, no chaos.\<close>

definition plainTick :: "slopePorts \<Rightarrow> real \<Rightarrow> real \<Rightarrow> slopeTick" where
  "plainTick p dt t =
     \<lparr>ports = p, argDeltaTime = dt, argFreeze = False, argChaosAmount = 0, argCurrentTime = t\<rparr>"

definition frozenTick :: "slopePorts \<Rightarrow> real \<Rightarrow> real \<Rightarrow> slopeTick" where
  "frozenTick p dt t =
     \<lparr>ports = p, argDeltaTime = dt, argFreeze = True, argChaosAmount = 0, argCurrentTime = t\<rparr>"

text \<open>The default ports with a cable in the sync input, at 0 V and at 10 V.\<close>

definition syncLow :: slopePorts where
  "syncLow = defaultPorts\<lparr>syncConnected := True\<rparr>"

definition syncHigh :: slopePorts where
  "syncHigh = defaultPorts\<lparr>syncConnected := True, syncVoltage := 10\<rparr>"

section \<open>Properties\<close>

subsection \<open>Unfolding rules and the module in terms of its slopes\<close>

lemmas edge_defs = edgeStage_def disconnectReset_def triggerStage_def syncStage_def syncEdge_def

lemmas trigger_defs = triggerEdge_def triggerAccepted_def toInt_def

lemmas time_defs = envelopeTime_def riseTime_def fallTime_def knobTime_def rateOffset_def
  chaosScale_def clamp_def advancedPhase_def

lemmas advance_defs = advance_def endOfCycle_def breakpointTriggered_def cyclePhase_def
  breakpointOf_def curveOf_def slopeValue_def rawPhaseOf_def

lemmas slope_defs = processSlope_def edge_defs trigger_defs time_defs advance_defs Let_def

lemma process_chanA:
  "chanA (fst (process a m)) =
     processSlope (portsA a) (sampleTime a)
       (fst (freezeUpdate (freezeAButtonParam a) (freezeACvConnected a) (freezeACvVoltage a)
              (freezeAState m) (prevFreezeAButton m)))
       (chaosAmountOf (chaosAParam a) (chaosACvVoltage a))
       (currentTime m + sampleTime a) (chanA m)"
  by (simp add: process_def Let_def)

lemma process_chanB:
  "chanB (fst (process a m)) =
     processSlope (portsB a) (sampleTime a)
       (fst (freezeUpdate (freezeBButtonParam a) (freezeBCvConnected a) (freezeBCvVoltage a)
              (freezeBState m) (prevFreezeBButton m)))
       (chaosAmountOf (chaosBParam a) (chaosBCvVoltage a))
       (currentTime m + sampleTime a) (chanB m)"
  by (simp add: process_def Let_def)

lemma process_frame:
  "currentTime (fst (process a m)) = currentTime m + sampleTime a"
  "freezeAState (fst (process a m)) =
     fst (freezeUpdate (freezeAButtonParam a) (freezeACvConnected a) (freezeACvVoltage a)
            (freezeAState m) (prevFreezeAButton m))"
  "prevFreezeAButton (fst (process a m)) = (freezeAButtonParam a > 0.5)"
  "prevAValue (fst (process a m)) = value' (chanA (fst (process a m)))"
  by (simp_all add: process_def Let_def freezeUpdate_def)

lemma process_outputs:
  "aEndOut (snd (process a m)) = (if endPulse (chanA (fst (process a m))) then 10 else 0)"
  "aPulseOut (snd (process a m)) = (if endPulse (chanA (fst (process a m))) then 10 else 0)"
  "bEndOut (snd (process a m)) = (if endPulse (chanB (fst (process a m))) then 10 else 0)"
  "aDerivativeOut (snd (process a m)) = derivative (chanA (fst (process a m))) * 5"
  by (simp_all add: process_def Let_def outputsOf_def)

subsection \<open>One full cycle of slope A, tick by tick\<close>

text \<open>The four calls of \<^verbatim>\<open>processSlope\<close> for slope A in the cycle.\<close>

lemma slopeA_tick1:
  "processSlope (defaultPorts\<lparr>trigVoltage := 10\<rparr>) (1/2) False 0 (1/2) (initChannel (1/2)) = stateA1"
  by (simp add: slope_defs defaultPorts_def initChannel_def stateA1_def)

lemma slopeA_tick2: "processSlope defaultPorts (1/2) False 0 1 stateA1 = stateA2"
  by (simp add: slope_defs defaultPorts_def stateA1_def stateA2_def)

lemma slopeA_tick3: "processSlope defaultPorts (1/2) False 0 (3/2) stateA2 = stateA3"
  by (simp add: slope_defs defaultPorts_def stateA2_def stateA3_def)

lemma slopeA_tick4: "processSlope defaultPorts (1/2) False 0 2 stateA3 = stateA4"
  by (simp add: slope_defs defaultPorts_def stateA3_def stateA4_def)

lemma quiet_freeze:
  "fst (freezeUpdate (freezeAButtonParam (quietTick dt)) (freezeACvConnected (quietTick dt))
         (freezeACvVoltage (quietTick dt)) f b) = f"
  "fst (freezeUpdate (freezeAButtonParam (trigTick dt)) (freezeACvConnected (trigTick dt))
         (freezeACvVoltage (trigTick dt)) f b) = f"
  "chaosAmountOf (chaosAParam (quietTick dt)) (chaosACvVoltage (quietTick dt)) = 0"
  "chaosAmountOf (chaosAParam (trigTick dt)) (chaosACvVoltage (trigTick dt)) = 0"
  "portsA (quietTick dt) = defaultPorts"
  "portsA (trigTick dt) = defaultPorts\<lparr>trigVoltage := 10\<rparr>"
  "sampleTime (quietTick dt) = dt"
  "sampleTime (trigTick dt) = dt"
  by (simp_all add: quietTick_def trigTick_def freezeUpdate_def chaosAmountOf_def clamp_def)

lemma cycle1_A:
  "chanA cycle1 = stateA1 \<and> \<not> freezeAState cycle1 \<and> currentTime cycle1 = 1/2"
  using slopeA_tick1
  by (simp add: cycle1_def process_chanA process_frame quiet_freeze initMatho_def)

lemma cycle2_A:
  "chanA cycle2 = stateA2 \<and> \<not> freezeAState cycle2 \<and> currentTime cycle2 = 1"
  using slopeA_tick2
  by (simp add: cycle2_def process_chanA process_frame quiet_freeze cycle1_A)

lemma cycle3_A:
  "chanA cycle3 = stateA3 \<and> \<not> freezeAState cycle3 \<and> currentTime cycle3 = 3/2"
  using slopeA_tick3
  by (simp add: cycle3_def process_chanA process_frame quiet_freeze cycle2_A)

lemma cycle4_A:
  "chanA cycle4 = stateA4 \<and> \<not> freezeAState cycle4 \<and> currentTime cycle4 = 2"
  using slopeA_tick4
  by (simp add: cycle4_def process_chanA process_frame quiet_freeze cycle3_A)

subsection \<open>The curve shaper\<close>

lemma pow_zero_base: "0 < y \<Longrightarrow> pow 0 y = 0"
  by (simp add: pow_def)

lemma pow_one_base: "pow 1 y = 1"
  by (simp add: pow_def)

text \<open>
  C9. For every curvature the curve shaper maps phase 0 to 0 and phase 1 to 1, so the
  value of the slope (the shaped phase while rising, one minus it while falling) is 0 at
  the start of the rise, 1 at its end and at the start of the fall, and 0 at the end of
  the fall.
\<close>

theorem applyCurve_endpoints:
  "applyCurve 0 c = 0 \<and> applyCurve 1 c = 1 \<and>
   slopeValue True 0 c = 0 \<and> slopeValue True 1 c = 1 \<and>
   slopeValue False 0 c = 1 \<and> slopeValue False 1 c = 0"
  by (simp add: applyCurve_def slopeValue_def rawPhaseOf_def pow_zero_base pow_one_base)

subsection \<open>Ranges\<close>

lemma clamp_lower: "a \<le> clamp x a b"
  by (simp add: clamp_def)

lemma riseTime_pos: "0 < riseTime p ca s"
proof -
  have "0.001 \<le> riseTime p ca s"
    unfolding riseTime_def by (rule clamp_lower)
  then show ?thesis by simp
qed

lemma fallTime_pos: "0 < fallTime p ca s"
proof -
  have "0.001 \<le> fallTime p ca s"
    unfolding fallTime_def by (rule clamp_lower)
  then show ?thesis by simp
qed

lemma envelopeTime_pos: "0 < envelopeTime p ca s"
proof -
  have r: "0 < riseTime p ca s" and f: "0 < fallTime p ca s"
    by (rule riseTime_pos, rule fallTime_pos)
  then have "0 < riseTime p ca s + fallTime p ca s" by simp
  with r f show ?thesis
    by (simp add: envelopeTime_def Let_def zero_less_mult_iff)
qed

lemma advancedPhase_nonneg:
  assumes "0 < dt" and "0 \<le> phase s"
  shows "0 \<le> advancedPhase p dt ca s"
proof -
  have "0 < dt / envelopeTime p ca s"
    using assms(1) envelopeTime_pos [of p ca s] by simp
  with assms(2) show ?thesis by (simp add: advancedPhase_def)
qed

lemma pow_unit: "0 \<le> x \<Longrightarrow> x \<le> 1 \<Longrightarrow> 0 < y \<Longrightarrow> 0 \<le> pow x y \<and> pow x y \<le> 1"
  by (simp add: pow_def powr_le1)

lemma applyCurve_unit:
  assumes "0 \<le> ph" and "ph \<le> 1"
  shows "0 \<le> applyCurve ph c \<and> applyCurve ph c \<le> 1"
proof (cases "c < 0")
  case True
  then have "0 < 1 + (- c) * 2" by simp
  from pow_unit [OF assms this] True show ?thesis by (simp add: applyCurve_def)
next
  case False
  show ?thesis
  proof (cases "0 < c")
    case True
    then have e: "0 < 1 + c * 8" by simp
    have "0 \<le> 1 - ph" "1 - ph \<le> 1" using assms by simp_all
    from pow_unit [OF this e] True False show ?thesis by (simp add: applyCurve_def)
  next
    case False
    with \<open>\<not> c < 0\<close> assms show ?thesis by (simp add: applyCurve_def)
  qed
qed

lemma slopeValue_unit:
  assumes "0 \<le> ph" and "ph \<le> 1"
  shows "0 \<le> slopeValue r ph c \<and> slopeValue r ph c \<le> 1"
  using applyCurve_unit [OF assms, of c] assms
  by (simp add: slopeValue_def rawPhaseOf_def)

lemma endOfCycle_phase:
  "0 \<le> phase s \<Longrightarrow> 0 \<le> phase (endOfCycle p s) \<and> phase (endOfCycle p s) \<le> 1"
  by (simp add: endOfCycle_def)

lemma advance_fields:
  "phase (advance p dt ca ct s) =
     phase (endOfCycle p (s\<lparr>phase := advancedPhase p dt ca s,
        breakpointPulse := (breakpointPulse s \<or> breakpointTriggered p dt ca s)\<rparr>))"
  "value' (advance p dt ca ct s) =
     slopeValue
       (rising (endOfCycle p (s\<lparr>phase := advancedPhase p dt ca s,
          breakpointPulse := (breakpointPulse s \<or> breakpointTriggered p dt ca s)\<rparr>)))
       (phase (endOfCycle p (s\<lparr>phase := advancedPhase p dt ca s,
          breakpointPulse := (breakpointPulse s \<or> breakpointTriggered p dt ca s)\<rparr>)))
       (curveOf p ca s)"
  by (simp_all add: advance_def Let_def)

lemma advance_inv:
  assumes "0 < dt" and "0 \<le> phase s"
  shows "chanInv (advance p dt ca ct s)"
proof -
  let ?s2 = "s\<lparr>phase := advancedPhase p dt ca s,
        breakpointPulse := (breakpointPulse s \<or> breakpointTriggered p dt ca s)\<rparr>"
  have "0 \<le> phase ?s2"
    using advancedPhase_nonneg [OF assms] by simp
  then have ph: "0 \<le> phase (endOfCycle p ?s2) \<and> phase (endOfCycle p ?s2) \<le> 1"
    by (rule endOfCycle_phase)
  then have "0 \<le> slopeValue (rising (endOfCycle p ?s2)) (phase (endOfCycle p ?s2)) (curveOf p ca s)
      \<and> slopeValue (rising (endOfCycle p ?s2)) (phase (endOfCycle p ?s2)) (curveOf p ca s) \<le> 1"
    using slopeValue_unit by blast
  with ph show ?thesis
    by (simp add: chanInv_def advance_fields)
qed

lemma edgeStage_inv: "chanInv s \<Longrightarrow> chanInv (edgeStage p ct s)"
  by (simp add: edge_defs chanInv_def Let_def)

lemma processSlope_inv:
  assumes "0 < dt" and "chanInv s"
  shows "chanInv (processSlope p dt fr ca ct s)"
proof (cases fr)
  case True
  with edgeStage_inv [OF assms(2)] show ?thesis by (simp add: processSlope_def)
next
  case False
  have "0 \<le> phase (edgeStage p ct s)"
    using edgeStage_inv [OF assms(2), of p ct] by (simp add: chanInv_def)
  from advance_inv [OF assms(1) this] False show ?thesis by (simp add: processSlope_def)
qed

lemma process_inv:
  assumes "0 < sampleTime a" and "chanInv (chanA m)" and "chanInv (chanB m)"
  shows "chanInv (chanA (fst (process a m))) \<and> chanInv (chanB (fst (process a m)))"
  unfolding process_chanA process_chanB
  using processSlope_inv [OF assms(1) assms(2)] processSlope_inv [OF assms(1) assms(3)]
  by blast

lemma run_inv:
  "\<forall>a \<in> set ins. 0 < sampleTime a \<Longrightarrow> chanInv (chanA m) \<Longrightarrow> chanInv (chanB m) \<Longrightarrow>
   chanInv (chanA (run ins m)) \<and> chanInv (chanB (run ins m))"
proof (induction ins arbitrary: m)
  case Nil
  then show ?case by simp
next
  case (Cons a ins)
  from Cons.prems have "0 < sampleTime a" by simp
  from process_inv [OF this Cons.prems(2) Cons.prems(3)] Cons.prems(1) Cons.IH
  show ?case by simp
qed

lemma init_inv: "chanInv (initChannel u)"
  by (simp add: chanInv_def initChannel_def)

text \<open>
  C10. From the state the constructor leaves, after any sequence of ticks whose sample
  times are positive, each slope has its phase in [0,1] and its value in [0,1]. Frozen
  ticks, trigger and sync restarts and the reset of a disconnected trigger are ticks
  like any other here.
\<close>

theorem phase_value_range:
  assumes "\<forall>a \<in> set ins. 0 < sampleTime a"
  shows "chanInv (chanA (run ins (initMatho uA uB))) \<and> chanInv (chanB (run ins (initMatho uA uB)))"
  using run_inv [OF assms, of "initMatho uA uB"] init_inv
  by (simp add: initMatho_def)

text \<open>
  C10 at an input: after the first two ticks of the cycle both slopes are in range, and
  slope A is at the top of the cycle.
\<close>

theorem phase_value_range_witness:
  "chanInv (chanA (run [trigTick (1/2), quietTick (1/2)] (initMatho (1/2) (1/2)))) \<and>
   chanInv (chanB (run [trigTick (1/2), quietTick (1/2)] (initMatho (1/2) (1/2)))) \<and>
   chanA (run [trigTick (1/2), quietTick (1/2)] (initMatho (1/2) (1/2))) = stateA2"
  using phase_value_range [of "[trigTick (1/2), quietTick (1/2)]" "1/2" "1/2"] cycle2_A
  by (simp add: quiet_freeze cycle2_def cycle1_def)

subsection \<open>The end pulse\<close>

lemma endPulse_processSlope:
  "endPulse (processSlope p dt fr ca ct s) = (fr \<and> trigConnected p \<and> endPulse s)"
  by (simp add: processSlope_def edge_defs advance_def Let_def)

lemma endPulse_run:
  "\<not> endPulse (chanA m) \<Longrightarrow> \<not> endPulse (chanB m) \<Longrightarrow>
   \<not> endPulse (chanA (run ins m)) \<and> \<not> endPulse (chanB (run ins m))"
proof (induction ins arbitrary: m)
  case Nil
  then show ?case by simp
next
  case (Cons a ins)
  have "\<not> endPulse (chanA (fst (process a m)))" "\<not> endPulse (chanB (fst (process a m)))"
    using Cons.prems by (simp_all add: process_chanA process_chanB endPulse_processSlope)
  then show ?case using Cons.IH by simp
qed

lemma end_outputs_always_zero:
  "aEndOut (snd (process a (run ins (initMatho uA uB)))) = 0 \<and>
   aPulseOut (snd (process a (run ins (initMatho uA uB)))) = 0 \<and>
   bEndOut (snd (process a (run ins (initMatho uA uB)))) = 0"
proof -
  have "\<not> endPulse (chanA (run ins (initMatho uA uB))) \<and>
        \<not> endPulse (chanB (run ins (initMatho uA uB)))"
    by (rule endPulse_run) (simp_all add: initMatho_def initChannel_def)
  then show ?thesis
    by (simp add: process_outputs process_chanA process_chanB endPulse_processSlope)
qed

text \<open>
  C1, where the code departs from the claim. The claim: on the tick on which the fall
  reaches phase 1 the end pulse flag is true in the state at the end of the tick, and so
  on the end output. In the cycle of four ticks the fall completes on the fourth, which
  is the call of \<^verbatim>\<open>processSlope\<close> on the third state, and the end light is lit from
  the flag; yet the flag is false in the state each of the four ticks leaves, and the end
  output of the fourth tick is 0 V. Line 591 clears the flag before \<^verbatim>\<open>process\<close> reads
  it at lines 354-355.
\<close>

theorem end_pulse_cleared_before_output:
  "fallCompletes defaultPorts (1/2) False 0 2 stateA3 \<and>
   chanA cycle4 = processSlope defaultPorts (1/2) False 0 2 stateA3 \<and>
   endLight (chanA cycle4) = 1 \<and>
   endPulse (chanA cycle4) = False \<and>
   aEndOut (snd (process (quietTick (1/2)) cycle3)) = 0 \<and>
   map (\<lambda>m. endPulse (chanA m)) [cycle1, cycle2, cycle3, cycle4] = [False, False, False, False] \<and>
   map (\<lambda>m. value' (chanA m)) [cycle1, cycle2, cycle3, cycle4] = [1/2, 1, 1/2, 0]"
proof -
  have "fallCompletes defaultPorts (1/2) False 0 2 stateA3"
    by (simp add: fallCompletes_def edge_defs trigger_defs time_defs Let_def defaultPorts_def stateA3_def)
  moreover have "aEndOut (snd (process (quietTick (1/2)) cycle3)) = 0"
    using cycle4_A by (simp add: process_outputs cycle4_def [symmetric] stateA4_def)
  ultimately show ?thesis
    using cycle1_A cycle2_A cycle3_A cycle4_A slopeA_tick4
    by (simp add: stateA1_def stateA2_def stateA3_def stateA4_def)
qed

subsection \<open>Disconnected trigger\<close>

text \<open>
  C2, where the code departs from the claim. The claim: a tick whose trigger input has
  no cable ends with value, derivative and integral 0, phase 0 and no breakpoint pulse.
  On the constructor's state, with the breakpoint knob at 0, a sample time of 0.1 s and
  the clock at 1 s, the tick that is not frozen resets the slope (lines 400-411) and then
  runs on: it ends with phase, value and derivative not 0, the integral not 0 and the
  breakpoint pulse set.
\<close>

theorem disconnected_tick_advances:
  "processSlope (defaultPorts\<lparr>trigConnected := False, breakpointParam := 0\<rparr>) (1/10) False 0 1
     (initChannel (1/2))
   = (initChannel (1/2))\<lparr>phase := 1/10, value' := 1/10, derivative := 1, integral := 1/100,
        rising := True, breakpointPulse := True, activeLight := 1/10, breakpointLight := 1\<rparr>"
  by (simp add: slope_defs defaultPorts_def initChannel_def)

lemma disconnected_frozen_idle:
  assumes "\<not> trigConnected p"
  shows "phase (processSlope p dt True ca ct s) = 0 \<and>
         value' (processSlope p dt True ca ct s) = 0 \<and>
         derivative (processSlope p dt True ca ct s) = 0 \<and>
         integral (processSlope p dt True ca ct s) = 0 \<and>
         rising (processSlope p dt True ca ct s) \<and>
         \<not> endPulse (processSlope p dt True ca ct s) \<and>
         \<not> breakpointPulse (processSlope p dt True ca ct s)"
  using assms by (simp add: processSlope_def edge_defs Let_def)

subsection \<open>The derivative\<close>

lemma derivative_is_clock_reciprocal:
  assumes "dt \<noteq> 0"
  shows "derivative (processSlope p dt False ca ct s) =
           (if rising (processSlope p dt False ca ct s) then 1 else - 1) / ct"
  using assms by (simp add: processSlope_def advance_def Let_def slopeValue_def field_simps)

text \<open>
  C3, where the code departs from the claim. The claim: the derivative of a tick that
  is not frozen is (value - previous value) / deltaTime. On the second tick of the cycle
  the value goes from 0.5 to 1 in half a second, a difference quotient of 1, and the
  derivative the code stores is -1; over the four ticks it stores 2, -1, -2/3 and -1/2,
  the reciprocal of the clock with the sign of the stage. The previous value that line
  383 keeps is never read.
\<close>

theorem derivative_ignores_previous_value:
  "chanA cycle2 = processSlope defaultPorts (1/2) False 0 1 (chanA cycle1) \<and>
   derivative (chanA cycle2) = - 1 \<and>
   (value' (chanA cycle2) - prevAValue cycle1) / sampleTime (quietTick (1/2)) = 1 \<and>
   map (\<lambda>m. derivative (chanA m)) [cycle1, cycle2, cycle3, cycle4] = [2, - 1, - (2/3), - (1/2)] \<and>
   map (\<lambda>m. prevAValue m) [cycle1, cycle2, cycle3, cycle4] = [1/2, 1, 1/2, 0]"
proof -
  have "prevAValue cycle1 = 1/2" "prevAValue cycle2 = 1" "prevAValue cycle3 = 1/2" "prevAValue cycle4 = 0"
    using cycle1_A cycle2_A cycle3_A cycle4_A
    unfolding cycle1_def cycle2_def cycle3_def cycle4_def process_frame
    by (simp_all add: stateA1_def stateA2_def stateA3_def stateA4_def)
  then show ?thesis
    using cycle1_A cycle2_A cycle3_A cycle4_A slopeA_tick2
    by (simp add: stateA1_def stateA2_def stateA3_def stateA4_def quiet_freeze)
qed

subsection \<open>The constructor\<close>

lemma constructor_state:
  "phase (chanA (initMatho uA uB)) = 0 \<and> rising (chanA (initMatho uA uB)) = False \<and>
   value' (chanA (initMatho uA uB)) = 0 \<and>
   phase (chanB (initMatho uA uB)) = 0 \<and> rising (chanB (initMatho uA uB)) = False \<and>
   value' (chanB (initMatho uA uB)) = 0"
  by (simp add: initMatho_def initChannel_def)

lemma first_tick_with_cable:
  "processSlope defaultPorts (1/4) False 0 (1/4) (initChannel (1/2)) =
     (initChannel (1/2))\<lparr>phase := 1/4, value' := 3/4, derivative := - 4, integral := 3/16,
        breakpointPulse := True, activeLight := 3/4, breakpointLight := 1\<rparr>"
  by (simp add: slope_defs defaultPorts_def initChannel_def)

text \<open>
  C4, where the code departs from the claim. The claim: a slope is created with phase
  0, rising true and value 0. The member initialisers (lines 122-132) give phase 0 and
  value 0 but \<open>rising\<close> false, on both slopes. The reset of lines 400-411, whose comment
  calls its result the neutral state, sets \<open>rising\<close> true, as every restart does; and
  by line 577 a falling slope at phase 0 has value 1, not the 0 the constructor stores.
  So on a fresh module with a cable in trigger A that carries 0 V, the first tick of a
  quarter of a second, with no trigger at all, leaves slope A falling at value 3/4 and
  puts 7.5 V on its output.
\<close>

theorem constructor_starts_falling:
  "phase (chanA (initMatho (1/2) (1/2))) = 0 \<and>
   value' (chanA (initMatho (1/2) (1/2))) = 0 \<and>
   rising (chanA (initMatho (1/2) (1/2))) = False \<and>
   rising (chanB (initMatho (1/2) (1/2))) = False \<and>
   rising (disconnectReset (defaultPorts\<lparr>trigConnected := False\<rparr>)
             (chanA (initMatho (1/2) (1/2)))) = True \<and>
   slopeValue (rising (chanA (initMatho (1/2) (1/2)))) (phase (chanA (initMatho (1/2) (1/2)))) 0 = 1 \<and>
   rising (chanA (fst (process (quietTick (1/4)) (initMatho (1/2) (1/2))))) = False \<and>
   value' (chanA (fst (process (quietTick (1/4)) (initMatho (1/2) (1/2))))) = 3/4 \<and>
   aSlopeOut (snd (process (quietTick (1/4)) (initMatho (1/2) (1/2)))) = 15/2"
proof -
  have a: "chanA (fst (process (quietTick (1/4)) (initMatho (1/2) (1/2)))) =
     (initChannel (1/2))\<lparr>phase := 1/4, value' := 3/4, derivative := - 4, integral := 3/16,
        breakpointPulse := True, activeLight := 3/4, breakpointLight := 1\<rparr>"
    using first_tick_with_cable
    by (simp add: process_chanA quiet_freeze initMatho_def)
  have o: "aSlopeOut (snd (process (quietTick (1/4)) (initMatho (1/2) (1/2)))) =
           value' (chanA (fst (process (quietTick (1/4)) (initMatho (1/2) (1/2))))) * 10"
    by (simp add: process_def Let_def outputsOf_def)
  show ?thesis
    unfolding o a
    by (simp add: initMatho_def initChannel_def disconnectReset_def defaultPorts_def
          slopeValue_def rawPhaseOf_def)
qed

subsection \<open>The trigger policy\<close>

text \<open>
  C5. On a rising edge of a connected trigger input, lines 396-441 do the following. In
  mode 3 (completion only) the edge is accepted exactly when the slope is falling and
  its phase is at least 1; in particular an edge that finds the slope rising changes
  nothing but the edge memory. An accepted edge, in any mode, sets phase 0, rising true,
  value 0 and draws a new chaos value; a rejected edge changes nothing but the edge
  memory.
\<close>

theorem trigger_policy:
  assumes "trigConnected p" and "triggerEdge p s"
  shows "(toInt (trigModeParam p) = 3 \<longrightarrow>
            triggerAccepted p s = (\<not> rising s \<and> phase s \<ge> 1)) \<and>
         (toInt (trigModeParam p) = 3 \<and> rising s \<longrightarrow>
            triggerStage p (disconnectReset p s) = s\<lparr>prevTrigger := True\<rparr>) \<and>
         (triggerAccepted p s \<longrightarrow>
            triggerStage p (disconnectReset p s) =
              s\<lparr>phase := 0, rising := True, value' := 0,
                chaosMod := (uniformTrig p - 1/2) * 2, prevTrigger := True\<rparr>) \<and>
         (\<not> triggerAccepted p s \<longrightarrow>
            triggerStage p (disconnectReset p s) = s\<lparr>prevTrigger := True\<rparr>)"
proof -
  from assms have v: "trigVoltage p > 1/2" by (simp add: triggerEdge_def)
  have r: "disconnectReset p s = s" using assms(1) by (simp add: disconnectReset_def)
  have a: "toInt (trigModeParam p) = 3 \<longrightarrow> triggerAccepted p s = (\<not> rising s \<and> phase s \<ge> 1)"
    by (simp add: triggerAccepted_def)
  have b: "triggerAccepted p s \<longrightarrow>
            triggerStage p s =
              s\<lparr>phase := 0, rising := True, value' := 0,
                chaosMod := (uniformTrig p - 1/2) * 2, prevTrigger := True\<rparr>"
    using assms(2) v by (simp add: triggerStage_def Let_def)
  have c: "\<not> triggerAccepted p s \<longrightarrow> triggerStage p s = s\<lparr>prevTrigger := True\<rparr>"
    using v by (simp add: triggerStage_def Let_def)
  from a b c show ?thesis unfolding r by blast
qed

text \<open>
  C5 at an input, in completion-only mode with 10 V on the trigger: the edge restarts
  the slope that rests at the end of its fall, and leaves the slope in the middle of
  its rise alone.
\<close>

theorem trigger_policy_witness:
  "triggerStage (defaultPorts\<lparr>trigVoltage := 10, trigModeParam := 3\<rparr>)
     (disconnectReset (defaultPorts\<lparr>trigVoltage := 10, trigModeParam := 3\<rparr>) stateA4)
     = stateA4\<lparr>phase := 0, rising := True, value' := 0, chaosMod := 0, prevTrigger := True\<rparr> \<and>
   triggerStage (defaultPorts\<lparr>trigVoltage := 10, trigModeParam := 3\<rparr>)
     (disconnectReset (defaultPorts\<lparr>trigVoltage := 10, trigModeParam := 3\<rparr>) (stateA1\<lparr>prevTrigger := False\<rparr>))
     = stateA1\<lparr>prevTrigger := True\<rparr>"
  using trigger_policy [of "defaultPorts\<lparr>trigVoltage := 10, trigModeParam := 3\<rparr>" stateA4]
        trigger_policy [of "defaultPorts\<lparr>trigVoltage := 10, trigModeParam := 3\<rparr>" "stateA1\<lparr>prevTrigger := False\<rparr>"]
  by (simp add: defaultPorts_def stateA4_def stateA1_def trigger_defs)

subsection \<open>Sync\<close>

lemma runSlope_append: "runSlope (xs @ ys) s = runSlope ys (runSlope xs s)"
  by (induction xs arbitrary: s) simp_all

lemma advance_sync_fields:
  "lastSyncTime (advance p dt ca ct s) = lastSyncTime s"
  "syncPeriod (advance p dt ca ct s) = syncPeriod s"
  by (simp_all add: advance_def endOfCycle_def Let_def)

lemma before_sync_fields:
  "lastSyncTime (triggerStage p (disconnectReset p s)) = lastSyncTime s"
  "syncPeriod (triggerStage p (disconnectReset p s)) = syncPeriod s"
  "syncEdge p (triggerStage p (disconnectReset p s)) = syncEdge p s"
  by (simp_all add: triggerStage_def disconnectReset_def syncEdge_def Let_def)

lemma syncStage_edge:
  assumes "syncEdge p s"
  shows "syncStage p ct s =
           s\<lparr>syncPeriod := (if lastSyncTime s > 0 then clamp (ct - lastSyncTime s) (1/100) 10
                             else syncPeriod s),
             lastSyncTime := ct, phase := 0, rising := True, value' := 0,
             chaosMod := (uniformSync p - 1/2) * 2, prevSync := True\<rparr>"
  using assms by (simp add: syncStage_def syncEdge_def Let_def)

lemma syncStage_no_edge:
  assumes "\<not> syncEdge p s"
  shows "syncStage p ct s = s\<lparr>prevSync := (syncVoltage p > 1/2)\<rparr>"
  using assms by (auto simp add: syncStage_def syncEdge_def Let_def)

lemma edgeStage_lastSyncTime:
  "lastSyncTime (edgeStage p ct s) = (if syncEdge p s then ct else lastSyncTime s)"
  by (cases "syncEdge p s")
     (simp_all add: edgeStage_def syncStage_edge syncStage_no_edge before_sync_fields)

lemma edgeStage_syncPeriod:
  "syncPeriod (edgeStage p ct s) =
     (if syncEdge p s \<and> lastSyncTime s > 0 then clamp (ct - lastSyncTime s) (1/100) 10
      else syncPeriod s)"
  by (cases "syncEdge p s")
     (simp_all add: edgeStage_def syncStage_edge syncStage_no_edge before_sync_fields)

lemmas edgeStage_sync_fields = edgeStage_lastSyncTime edgeStage_syncPeriod

lemma edgeStage_restart:
  assumes "syncEdge p s"
  shows "phase (edgeStage p ct s) = 0 \<and> rising (edgeStage p ct s) \<and>
         value' (edgeStage p ct s) = 0 \<and>
         chaosMod (edgeStage p ct s) = (uniformSync p - 1/2) * 2"
  using assms by (simp add: edgeStage_def syncStage_edge before_sync_fields)

lemma processSlope_sync_fields:
  "lastSyncTime (processSlope p dt fr ca ct s) = (if syncEdge p s then ct else lastSyncTime s)"
  "syncPeriod (processSlope p dt fr ca ct s) =
     (if syncEdge p s \<and> lastSyncTime s > 0 then clamp (ct - lastSyncTime s) (1/100) 10
      else syncPeriod s)"
  by (simp_all add: processSlope_def Let_def advance_sync_fields edgeStage_sync_fields)

lemma noSyncEdge_frame:
  "noSyncEdge ts s \<Longrightarrow>
   lastSyncTime (runSlope ts s) = lastSyncTime s \<and> syncPeriod (runSlope ts s) = syncPeriod s"
proof (induction ts arbitrary: s)
  case Nil
  then show ?case by simp
next
  case (Cons t ts)
  then have "\<not> syncEdge (ports t) s" and "noSyncEdge ts (slopeStep t s)" by simp_all
  with Cons.IH [of "slopeStep t s"] show ?case
    by (simp add: slopeStep_def processSlope_sync_fields)
qed

lemma two_pulses:
  assumes "0 < argCurrentTime t1" and "syncEdge (ports t1) s"
    and "noSyncEdge ts (slopeStep t1 s)"
    and "syncEdge (ports t2) (runSlope ts (slopeStep t1 s))"
    and "argCurrentTime t2 = argCurrentTime t1 + 2"
  shows "syncPeriod (runSlope (t1 # ts @ [t2]) s) = 2"
proof -
  let ?s1 = "slopeStep t1 s"
  let ?s2 = "runSlope ts ?s1"
  have "lastSyncTime ?s1 = argCurrentTime t1"
    using assms(2) by (simp add: slopeStep_def processSlope_sync_fields)
  with noSyncEdge_frame [OF assms(3)] have l: "lastSyncTime ?s2 = argCurrentTime t1" by simp
  have "syncPeriod (slopeStep t2 ?s2) = clamp (argCurrentTime t2 - lastSyncTime ?s2) (1/100) 10"
    using assms(1) assms(4) l by (simp add: slopeStep_def processSlope_sync_fields)
  also have "\<dots> = 2" using l assms(5) by (simp add: clamp_def)
  finally show ?thesis by (simp add: runSlope_append)
qed


lemma envelopeTime_synced:
  assumes "syncConnected p" and "0 < syncPeriod s"
  shows "envelopeTime p ca s =
           (if rising s then riseTime p ca s else fallTime p ca s) *
           (syncPeriod s / (riseTime p ca s + fallTime p ca s))"
  using assms by (simp add: envelopeTime_def Let_def)

lemma syncPeriod_stays_positive:
  assumes "0 < syncPeriod s"
  shows "0 < syncPeriod (processSlope p dt fr ca ct s)"
proof -
  have "(1/100::real) \<le> clamp (ct - lastSyncTime s) (1/100) 10" by (rule clamp_lower)
  then have "0 < clamp (ct - lastSyncTime s) (1/100) 10" by simp
  with assms show ?thesis by (simp add: processSlope_sync_fields)
qed

text \<open>
  C6. On a rising edge of a connected sync input: the sync stage (lines 443-470) sets
  the period to the time since the last edge clamped to [0.01, 10] when the stored time
  stamp is positive, and leaves it alone otherwise; it always stores the current time,
  and it restarts the slope with phase 0, rising true, value 0 and a new chaos value.
  The time stamp and the period are those at the end of the tick as well. If the clock
  is positive at this edge and the next sync edge comes exactly 2 s later, with no sync
  edge in the calls between, the period after that second edge is 2. A positive period
  stays positive, and while the sync input has a cable and the period is positive the
  time of the active stage is the stage's time multiplied by period / (rise time + fall
  time) (lines 525-532).
\<close>

theorem sync_tracker:
  assumes "syncEdge p s"
  shows "syncStage p ct s =
           s\<lparr>syncPeriod := (if lastSyncTime s > 0 then clamp (ct - lastSyncTime s) (1/100) 10
                             else syncPeriod s),
             lastSyncTime := ct, phase := 0, rising := True, value' := 0,
             chaosMod := (uniformSync p - 1/2) * 2, prevSync := True\<rparr> \<and>
         phase (edgeStage p ct s) = 0 \<and> rising (edgeStage p ct s) \<and>
         value' (edgeStage p ct s) = 0 \<and>
         chaosMod (edgeStage p ct s) = (uniformSync p - 1/2) * 2 \<and>
         lastSyncTime (processSlope p dt fr ca ct s) = ct \<and>
         syncPeriod (processSlope p dt fr ca ct s) =
           (if lastSyncTime s > 0 then clamp (ct - lastSyncTime s) (1/100) 10 else syncPeriod s) \<and>
         (0 < ct \<and> noSyncEdge ts (processSlope p dt fr ca ct s) \<and>
          syncEdge (ports t2) (runSlope ts (processSlope p dt fr ca ct s)) \<and>
          argCurrentTime t2 = ct + 2 \<longrightarrow>
            syncPeriod (slopeStep t2 (runSlope ts (processSlope p dt fr ca ct s))) = 2) \<and>
         (0 < syncPeriod s \<longrightarrow> 0 < syncPeriod (processSlope p dt fr ca ct s)) \<and>
         (syncConnected q \<and> 0 < syncPeriod u \<longrightarrow>
            envelopeTime q ca u =
              (if rising u then riseTime q ca u else fallTime q ca u) *
              (syncPeriod u / (riseTime q ca u + fallTime q ca u)))"
proof -
  let ?t1 = "\<lparr>ports = p, argDeltaTime = dt, argFreeze = fr, argChaosAmount = ca,
              argCurrentTime = ct\<rparr>"
  have step: "slopeStep ?t1 s = processSlope p dt fr ca ct s" by (simp add: slopeStep_def)
  have conn: "syncConnected p" using assms by (simp add: syncEdge_def)
  have pulses: "0 < ct \<and> noSyncEdge ts (processSlope p dt fr ca ct s) \<and>
          syncEdge (ports t2) (runSlope ts (processSlope p dt fr ca ct s)) \<and>
          argCurrentTime t2 = ct + 2 \<longrightarrow>
            syncPeriod (slopeStep t2 (runSlope ts (processSlope p dt fr ca ct s))) = 2"
  proof
    assume h: "0 < ct \<and> noSyncEdge ts (processSlope p dt fr ca ct s) \<and>
          syncEdge (ports t2) (runSlope ts (processSlope p dt fr ca ct s)) \<and>
          argCurrentTime t2 = ct + 2"
    have "syncPeriod (runSlope (?t1 # ts @ [t2]) s) = 2"
      by (rule two_pulses) (use h assms step in simp_all)
    then show "syncPeriod (slopeStep t2 (runSlope ts (processSlope p dt fr ca ct s))) = 2"
      by (simp add: runSlope_append step)
  qed
  have pos: "0 < syncPeriod s \<longrightarrow> 0 < syncPeriod (processSlope p dt fr ca ct s)"
    using syncPeriod_stays_positive by blast
  have scaled: "syncConnected q \<and> 0 < syncPeriod u \<longrightarrow>
            envelopeTime q ca u =
              (if rising u then riseTime q ca u else fallTime q ca u) *
              (syncPeriod u / (riseTime q ca u + fallTime q ca u))"
    using envelopeTime_synced by blast
  from syncStage_edge [OF assms] edgeStage_restart [OF assms] pulses pos scaled assms
  show ?thesis
    by (simp only: processSlope_sync_fields if_True simp_thms)
qed

lemma prevSync_processSlope:
  "prevSync (processSlope p dt fr ca ct s) = (syncVoltage p > 1/2)"
  by (simp add: processSlope_def advance_def endOfCycle_def edgeStage_def syncStage_def Let_def)

text \<open>
  C6 at an input: a first sync edge at clock 1 on the constructor's state (no time stamp
  yet) leaves the period at its initial 1 and stores the time; one call with the sync
  input low, then a second edge at clock 3, give a period of 2.
\<close>

theorem sync_tracker_witness:
  "syncPeriod (processSlope syncHigh (1/2) False 0 1 (initChannel (1/2))) = 1 \<and>
   lastSyncTime (processSlope syncHigh (1/2) False 0 1 (initChannel (1/2))) = 1 \<and>
   syncPeriod (slopeStep (plainTick syncHigh (1/2) 3)
     (runSlope [plainTick syncLow (1/2) 2]
        (processSlope syncHigh (1/2) False 0 1 (initChannel (1/2))))) = 2"
  using sync_tracker [where p = syncHigh and s = "initChannel (1/2)" and ct = 1
          and ts = "[plainTick syncLow (1/2) 2]" and dt = "1/2" and fr = False and ca = 0
          and ?t2.0 = "plainTick syncHigh (1/2) 3"]
  by (simp add: syncEdge_def syncHigh_def syncLow_def defaultPorts_def initChannel_def
        plainTick_def slopeStep_def prevSync_processSlope)

subsection \<open>The breakpoint pulse\<close>







subsection \<open>Freeze\<close>

lemma triggerStage_quiet:
  assumes "\<not> (triggerEdge p s \<and> triggerAccepted p s)"
  shows "triggerStage p s = s\<lparr>prevTrigger := (trigVoltage p > 1/2)\<rparr>"
  using assms by (auto simp add: triggerStage_def Let_def)

lemma triggerStage_restart:
  assumes "triggerEdge p s \<and> triggerAccepted p s"
  shows "triggerStage p s =
           s\<lparr>phase := 0, rising := True, value' := 0, chaosMod := (uniformTrig p - 1/2) * 2,
             prevTrigger := (trigVoltage p > 1/2)\<rparr>"
  using assms by (simp add: triggerStage_def Let_def)

lemma frozen_tick_quiet:
  assumes "trigConnected p" and "\<not> (triggerEdge p s \<and> triggerAccepted p s)" and "\<not> syncEdge p s"
  shows "processSlope p dt True ca ct s =
           s\<lparr>prevTrigger := (trigVoltage p > 1/2), prevSync := (syncVoltage p > 1/2)\<rparr>"
proof -
  have "disconnectReset p s = s" using assms(1) by (simp add: disconnectReset_def)
  moreover have "\<not> syncEdge p (s\<lparr>prevTrigger := (trigVoltage p > 1/2)\<rparr>)"
    using assms(3) by (simp add: syncEdge_def)
  ultimately show ?thesis
    using assms(2) by (simp add: processSlope_def edgeStage_def triggerStage_quiet syncStage_no_edge)
qed

lemma frozen_tick_accumulators:
  assumes "trigConnected p"
  shows "derivative (processSlope p dt True ca ct s) = derivative s \<and>
         integral (processSlope p dt True ca ct s) = integral s"
  using assms by (simp add: processSlope_def edge_defs Let_def)

lemma frozen_tick_restart:
  assumes "(triggerEdge p s \<and> triggerAccepted p s) \<or> syncEdge p s" and "trigConnected p"
  shows "phase (processSlope p dt True ca ct s) = 0 \<and> rising (processSlope p dt True ca ct s) \<and>
         value' (processSlope p dt True ca ct s) = 0"
proof (cases "syncEdge p s")
  case True
  from edgeStage_restart [OF this] show ?thesis by (simp add: processSlope_def)
next
  case False
  with assms(1) have acc: "triggerEdge p s \<and> triggerAccepted p s" by blast
  have r: "disconnectReset p s = s" using assms(2) by (simp add: disconnectReset_def)
  have "\<not> syncEdge p (triggerStage p s)" using False by (simp add: syncEdge_def triggerStage_def Let_def)
  then show ?thesis
    by (simp add: processSlope_def edgeStage_def r syncStage_no_edge triggerStage_restart [OF acc])
qed

lemma frozenQuiet_frame:
  "frozenQuiet ts s \<Longrightarrow>
   phase (runSlope ts s) = phase s \<and> value' (runSlope ts s) = value' s \<and>
   rising (runSlope ts s) = rising s \<and>
   derivative (runSlope ts s) = derivative s \<and> integral (runSlope ts s) = integral s"
proof (induction ts arbitrary: s)
  case Nil
  then show ?case by simp
next
  case (Cons t ts)
  from Cons.prems have fr: "argFreeze t" and c: "trigConnected (ports t)"
    and q: "\<not> (triggerEdge (ports t) s \<and> triggerAccepted (ports t) s)"
    and n: "\<not> syncEdge (ports t) s" and rest: "frozenQuiet ts (slopeStep t s)"
    by simp_all
  have "slopeStep t s =
          s\<lparr>prevTrigger := (trigVoltage (ports t) > 1/2), prevSync := (syncVoltage (ports t) > 1/2)\<rparr>"
    using frozen_tick_quiet [OF c q n] fr by (simp add: slopeStep_def)
  with Cons.IH [OF rest] show ?case by simp
qed

text \<open>
  C8, amended. On a frozen tick with a cable in the trigger input: derivative and
  integral are unchanged; phase, value and stage are unchanged unless the tick sees an
  accepted trigger edge or a sync edge, and then they are 0, 0 and rising. Over any run
  of frozen ticks with a cable in the trigger input and no accepted trigger edge or
  sync edge, phase, value, derivative and integral at the end are those at the start.
  A frozen tick whose trigger input has no cable sets phase, value, derivative and
  integral to 0.
\<close>

theorem frozen_frame:
  "(trigConnected p \<longrightarrow>
      derivative (processSlope p dt True ca ct s) = derivative s \<and>
      integral (processSlope p dt True ca ct s) = integral s) \<and>
   (trigConnected p \<and> \<not> (triggerEdge p s \<and> triggerAccepted p s) \<and> \<not> syncEdge p s \<longrightarrow>
      phase (processSlope p dt True ca ct s) = phase s \<and>
      value' (processSlope p dt True ca ct s) = value' s \<and>
      rising (processSlope p dt True ca ct s) = rising s) \<and>
   (trigConnected p \<and> ((triggerEdge p s \<and> triggerAccepted p s) \<or> syncEdge p s) \<longrightarrow>
      phase (processSlope p dt True ca ct s) = 0 \<and>
      value' (processSlope p dt True ca ct s) = 0 \<and>
      rising (processSlope p dt True ca ct s)) \<and>
   (frozenQuiet ts s \<longrightarrow>
      phase (runSlope ts s) = phase s \<and> value' (runSlope ts s) = value' s \<and>
      derivative (runSlope ts s) = derivative s \<and> integral (runSlope ts s) = integral s) \<and>
   (\<not> trigConnected p \<longrightarrow>
      phase (processSlope p dt True ca ct s) = 0 \<and>
      value' (processSlope p dt True ca ct s) = 0 \<and>
      derivative (processSlope p dt True ca ct s) = 0 \<and>
      integral (processSlope p dt True ca ct s) = 0)"
proof -
  have a: "trigConnected p \<longrightarrow>
      derivative (processSlope p dt True ca ct s) = derivative s \<and>
      integral (processSlope p dt True ca ct s) = integral s"
    using frozen_tick_accumulators by blast
  have b: "trigConnected p \<and> \<not> (triggerEdge p s \<and> triggerAccepted p s) \<and> \<not> syncEdge p s \<longrightarrow>
      phase (processSlope p dt True ca ct s) = phase s \<and>
      value' (processSlope p dt True ca ct s) = value' s \<and>
      rising (processSlope p dt True ca ct s) = rising s"
    by (simp add: frozen_tick_quiet)
  have c: "trigConnected p \<and> ((triggerEdge p s \<and> triggerAccepted p s) \<or> syncEdge p s) \<longrightarrow>
      phase (processSlope p dt True ca ct s) = 0 \<and>
      value' (processSlope p dt True ca ct s) = 0 \<and>
      rising (processSlope p dt True ca ct s)"
    using frozen_tick_restart [of p s dt ca ct] by blast
  have d: "frozenQuiet ts s \<longrightarrow>
      phase (runSlope ts s) = phase s \<and> value' (runSlope ts s) = value' s \<and>
      derivative (runSlope ts s) = derivative s \<and> integral (runSlope ts s) = integral s"
    using frozenQuiet_frame [of ts s] by blast
  have e: "\<not> trigConnected p \<longrightarrow>
      phase (processSlope p dt True ca ct s) = 0 \<and>
      value' (processSlope p dt True ca ct s) = 0 \<and>
      derivative (processSlope p dt True ca ct s) = 0 \<and>
      integral (processSlope p dt True ca ct s) = 0"
    by (simp add: processSlope_def edge_defs Let_def)
  from a b c d e show ?thesis by blast
qed

text \<open>
  C8 at an input: two frozen ticks from the middle of the rise, the second with a
  trigger edge that completion-only mode rejects, leave phase and value at 0.5.
\<close>

theorem frozen_frame_witness:
  "frozenQuiet [frozenTick defaultPorts (1/2) 1, frozenTick (defaultPorts\<lparr>trigVoltage := 10, trigModeParam := 3\<rparr>) (1/2) (3/2)] stateA1 \<and>
   phase (runSlope [frozenTick defaultPorts (1/2) 1, frozenTick (defaultPorts\<lparr>trigVoltage := 10, trigModeParam := 3\<rparr>) (1/2) (3/2)] stateA1) = 1/2 \<and>
   value' (runSlope [frozenTick defaultPorts (1/2) 1, frozenTick (defaultPorts\<lparr>trigVoltage := 10, trigModeParam := 3\<rparr>) (1/2) (3/2)] stateA1) = 1/2"
  using frozen_frame [where s = stateA1 and ts =
          "[frozenTick defaultPorts (1/2) 1, frozenTick (defaultPorts\<lparr>trigVoltage := 10, trigModeParam := 3\<rparr>) (1/2) (3/2)]"]
  by (simp add: frozenTick_def slopeStep_def processSlope_def edge_defs trigger_defs Let_def
        defaultPorts_def stateA1_def)

text \<open>
  C8 as stated fails: a frozen tick with no trigger edge and no sync edge, whose trigger
  input has no cable, takes the phase from 0.5 to 0.
\<close>

theorem frozen_reset_counterexample:
  "\<not> triggerEdge (defaultPorts\<lparr>trigConnected := False\<rparr>) stateA1 \<and>
   \<not> syncEdge (defaultPorts\<lparr>trigConnected := False\<rparr>) stateA1 \<and>
   phase stateA1 = 1/2 \<and>
   phase (processSlope (defaultPorts\<lparr>trigConnected := False\<rparr>) (1/2) True 0 1 stateA1) = 0"
  by (simp add: slope_defs defaultPorts_def stateA1_def)

end
